theory Spec2Isabelle
  imports Main "HOL-Library.Sublist"
begin

section \<open>Strings\<close>

text \<open>
  The plugin works on JavaScript strings. They are modelled as \<open>string\<close>, one
  \<open>char\<close> per code unit, which covers the code units below 256; no function of
  \<open>lib/pip.js\<close> looks at a code unit above that range other than \<open>trim\<close>, whose
  white space is listed below for this range.
\<close>

definition LF :: char where "LF = CHR 0x0A"
definition CR :: char where "CR = CHR 0x0D"
definition backslash :: char where "backslash = CHR 0x5C"
definition quote :: char where "quote = CHR 0x27"

text \<open>\<open>Array.prototype.join(sep)\<close> on an array of strings.\<close>

fun join :: "string \<Rightarrow> string list \<Rightarrow> string" where
  "join sep [] = []"
| "join sep [x] = x"
| "join sep (x # y # ys) = x @ sep @ join sep (y # ys)"

text \<open>
  \<open>String.prototype.split\<close> with a regular expression that matches one
  separator at a time never returns an empty array: the text before the first
  separator is the first piece, also when it is empty.  \<open>cons_first\<close> puts a
  character in front of the first piece.
\<close>

definition cons_first :: "char \<Rightarrow> string list \<Rightarrow> string list" where
  "cons_first c ps = (case ps of [] \<Rightarrow> [[c]] | p # ps' \<Rightarrow> (c # p) # ps')"

text \<open>\<open>s.split(/\r?\n/)\<close>: a separator is a line feed, or a carriage return
  directly followed by a line feed.\<close>

fun split_lines :: "string \<Rightarrow> string list" where
  "split_lines [] = [[]]"
| "split_lines [c] = (if c = LF then [[], []] else [[c]])"
| "split_lines (c # d # cs) =
     (if c = CR \<and> d = LF then [] # split_lines cs
      else if c = LF then [] # split_lines (d # cs)
      else cons_first c (split_lines (d # cs)))"

text \<open>\<open>s.split(/[=<> \t]/)\<close>: a separator is one of the five characters.\<close>

definition is_delim :: "char \<Rightarrow> bool" where
  "is_delim c = (c = CHR ''='' \<or> c = CHR ''<'' \<or> c = CHR ''>'' \<or> c = CHR '' '' \<or> c = CHR 0x09)"

fun split_delims :: "string \<Rightarrow> string list" where
  "split_delims [] = [[]]"
| "split_delims (c # cs) =
     (if is_delim c then [] # split_delims cs else cons_first c (split_delims cs))"

text \<open>\<open>String.prototype.trim\<close>: white space and line terminators are removed
  from both ends (tab, line feed, vertical tab, form feed, carriage return,
  space, no-break space).\<close>

definition is_space :: "char \<Rightarrow> bool" where
  "is_space c = (c = CHR 0x09 \<or> c = CHR 0x0A \<or> c = CHR 0x0B \<or> c = CHR 0x0C
       \<or> c = CHR 0x0D \<or> c = CHR 0x20 \<or> c = CHR 0xA0)"

definition trim :: "string \<Rightarrow> string" where
  "trim s = rev (dropWhile is_space (rev (dropWhile is_space s)))"

text \<open>\<open>s.replace(pattern, replacement)\<close> with a one-character string pattern:
  only the first occurrence is replaced.  (The replacement is taken literally;
  the plugin's replacement is \<open>/\<close>, which has no \<open>$\<close> pattern.)\<close>

fun replace :: "char \<Rightarrow> string \<Rightarrow> string \<Rightarrow> string" where
  "replace p r [] = []"
| "replace p r (c # cs) = (if c = p then r @ cs else c # replace p r cs)"

text \<open>A number in a template literal: its decimal digits.\<close>

definition digit :: "nat \<Rightarrow> char" where
  "digit n = ''0123456789'' ! n"

fun decimal :: "nat \<Rightarrow> string" where
  "decimal n = (if n < 10 then [digit n] else decimal (n div 10) @ [digit (n mod 10)])"

declare decimal.simps [simp del]

text \<open>An environment variable in a template literal: \<open>undefined\<close> when unset.\<close>

definition template :: "string option \<Rightarrow> string" where
  "template v = (case v of None \<Rightarrow> ''undefined'' | Some x \<Rightarrow> x)"

text \<open>Truthiness of an optional string property: unset and the empty string
  are falsy.\<close>

definition truthy :: "string option \<Rightarrow> bool" where
  "truthy v = (case v of None \<Rightarrow> False | Some x \<Rightarrow> x \<noteq> [])"


section \<open>Data\<close>

text \<open>An error object: \<open>new Error(message)\<close> has no code; the errors of
  \<open>child_process\<close> and \<open>fs\<close> carry one (\<open>ENOENT\<close>, \<open>EACCES\<close>, ...).\<close>

datatype js_error = JsError (err_code: "string option") (err_message: string)

definition new_Error :: "string \<Rightarrow> js_error" where
  "new_Error msg = JsError None msg"

text \<open>What \<open>spawnSync\<close> returns.\<close>

record spawn_result =
  res_error :: "js_error option"
  res_status :: "int option"
  res_stdout :: "string option"
  res_stderr :: string

text \<open>The plugin's options, as \<open>lib/pip.js\<close> reads them.\<close>

record options =
  dockerizePip :: bool
  dockerFile :: "string option"
  dockerImage :: string
  dockerSsh :: bool
  verbose :: bool
  pythonBin :: string
  pipCmdExtraArgs :: "string list"
  usePipenv :: bool
  noDeploy :: "string list option"
  fileName :: string
  vendor :: "string option"
  pipPostInstallScript :: "string option"
  pipPostInstallArgs :: "string list option"

text \<open>One entry of \<open>serverless.service.functions\<close>.\<close>

record func =
  f_module :: "string option"
  f_vendor :: "string option"
  f_pipPostInstallScript :: "string option"
  f_pipPostInstallArgs :: "string list option"

text \<open>The messages handed to \<open>serverless.cli.log\<close>, one constructor for each
  template in the source, with the values it interpolates.\<close>

datatype log_msg =
    Building_image string
  | Docker_image string
  | Running string "string list"
  | Output string
  | Installing string string
  | Copying_vendor string string

fun render :: "log_msg \<Rightarrow> string" where
  "render (Building_image f) = ''Building custom docker image from '' @ f @ ''...''"
| "render (Docker_image i) = ''Docker Image: '' @ i"
| "render (Running cmd cmdOptions) = ''running '' @ cmd @ '' '' @ join '' '' cmdOptions"
| "render (Output text) = text"
| "render (Installing requirementsPath targetFolder) =
     ''Installing requirements of '' @ requirementsPath @ '' in '' @ targetFolder @ ''...''"
| "render (Copying_vendor vendorFolder targetRequirementsFolder) =
     ''Copying vendor libraries from '' @ vendorFolder @ '' to '' @ targetRequirementsFolder @ ''...''"

text \<open>
  The world outside the plugin is a parameter: the file system and the
  processes live in a state of type \<open>'w\<close>, and the functions of \<open>process\<close>,
  \<open>path\<close>, \<open>fs-extra\<close>, \<open>rimraf\<close>, \<open>child_process\<close> and \<open>./docker\<close> that
  \<open>lib/pip.js\<close> calls are the fields of a record.  A call that can throw returns
  a sum.
\<close>

record 'w sys =
  platform :: string
  getuid :: nat
  env_HOME :: "string option"
  env_SSH_AUTH_SOCK :: "string option"
  path_join :: "string \<Rightarrow> string \<Rightarrow> string"
  spawnSync :: "string \<Rightarrow> string list \<Rightarrow> string \<Rightarrow> 'w \<Rightarrow> spawn_result \<times> 'w"
  buildImage :: "string \<Rightarrow> 'w \<Rightarrow> (js_error + string) \<times> 'w"
  getBindPath :: "string \<Rightarrow> 'w \<Rightarrow> (js_error + string) \<times> 'w"
  getDockerUid :: "string \<Rightarrow> 'w \<Rightarrow> (js_error + string) \<times> 'w"
  ensureDirSync :: "string \<Rightarrow> 'w \<Rightarrow> (js_error + unit) \<times> 'w"
  existsSync :: "string \<Rightarrow> 'w \<Rightarrow> bool"
  readFileSync :: "string \<Rightarrow> 'w \<Rightarrow> js_error + string"
  writeFileSync :: "string \<Rightarrow> string \<Rightarrow> 'w \<Rightarrow> (js_error + unit) \<times> 'w"
  readdirSync :: "string \<Rightarrow> 'w \<Rightarrow> js_error + string list"
  copySync :: "string \<Rightarrow> string \<Rightarrow> 'w \<Rightarrow> (js_error + unit) \<times> 'w"
  rimrafSync :: "string \<Rightarrow> 'w \<Rightarrow> (js_error + unit) \<times> 'w"

text \<open>The state a run threads: the world, the log written so far, and the
  calls of \<open>spawnSync\<close> made so far, each with the command, the arguments and
  the working directory it was given (the \<open>shell\<close> option is always set).\<close>

record 'w state =
  world :: 'w
  cli_log :: "log_msg list"
  spawned :: "(string \<times> string list \<times> string) list"

definition log :: "log_msg \<Rightarrow> 'w state \<Rightarrow> 'w state" where
  "log m s = s\<lparr>cli_log := cli_log s @ [m]\<rparr>"

definition started :: "string \<Rightarrow> string list \<Rightarrow> string \<Rightarrow> 'w state \<Rightarrow> 'w state" where
  "started file cmdOptions cwd s = s\<lparr>spawned := spawned s @ [(file, cmdOptions, cwd)]\<rparr>"

definition on_world :: "('w \<Rightarrow> 'a \<times> 'w) \<Rightarrow> 'w state \<Rightarrow> 'a \<times> 'w state" where
  "on_world f s = (case f (world s) of (r, w) \<Rightarrow> (r, s\<lparr>world := w\<rparr>))"


section \<open>The functions of \<open>lib/pip.js\<close>\<close>

subsection \<open>\<open>dockerPathForWin\<close>\<close>

definition dockerPathForWin :: "'w sys \<Rightarrow> options \<Rightarrow> string \<Rightarrow> string" where
  "dockerPathForWin sys options path =
     (if platform sys = ''win32'' \<and> dockerizePip options
      then replace backslash ''/'' path
      else path)"

subsection \<open>\<open>generateRequirementsFile\<close>\<close>

text \<open>The callback of \<open>requirements.filter\<close>:
  \<open>!noDeploy.has(req.split(/[=<> \t]/)[0].trim())\<close>, where \<open>noDeploy\<close> is the set
  built from \<open>options.noDeploy || []\<close>.\<close>

definition noDeploySet :: "options \<Rightarrow> string set" where
  "noDeploySet options = set (case noDeploy options of None \<Rightarrow> [] | Some names \<Rightarrow> names)"

definition keepRequirement :: "string set \<Rightarrow> string \<Rightarrow> bool" where
  "keepRequirement denied req = (trim (hd (split_delims req)) \<notin> denied)"

text \<open>The local \<open>filteredRequirements\<close>, from the text read, and the text written.\<close>

definition filteredRequirements :: "string set \<Rightarrow> string \<Rightarrow> string list" where
  "filteredRequirements denied text = filter (keepRequirement denied) (split_lines text)"

definition filteredText :: "string set \<Rightarrow> string \<Rightarrow> string" where
  "filteredText denied text = join [LF] (filteredRequirements denied text)"

definition generateRequirementsFile ::
  "'w sys \<Rightarrow> string \<Rightarrow> string \<Rightarrow> options \<Rightarrow> 'w state \<Rightarrow> (js_error + unit) \<times> 'w state" where
  "generateRequirementsFile sys source target options s =
     (case readFileSync sys source (world s) of
        Inl e \<Rightarrow> (Inl e, s)
      | Inr text \<Rightarrow>
          on_world (writeFileSync sys target (filteredText (noDeploySet options) text)) s)"

subsection \<open>\<open>executeCommand\<close>\<close>

text \<open>Lines 25 to 75: the executable and its arguments.  In docker mode the
  image, the bind path and, off Linux, the user id come from \<open>./docker\<close>.
  First lines 29 to 35, the image.\<close>

definition dockerImageFor ::
  "'w sys \<Rightarrow> options \<Rightarrow> 'w state \<Rightarrow> (js_error + string) \<times> 'w state" where
  "dockerImageFor sys options s =
     (if truthy (dockerFile options)
      then on_world (buildImage sys (template (dockerFile options)))
             (log (Building_image (template (dockerFile options))) s)
      else (Inr (dockerImage options), s))"

text \<open>Lines 45 to 51, the mounts for \<open>ssh\<close>.\<close>

definition sshOptions :: "'w sys \<Rightarrow> options \<Rightarrow> string list" where
  "sshOptions sys options =
     (if dockerSsh options
      then [''-v'', template (env_HOME sys) @ ''/.ssh/id_rsa:/root/.ssh/id_rsa:z'',
            ''-v'', template (env_HOME sys) @ ''/.ssh/known_hosts:/root/.ssh/known_hosts:z'',
            ''-v'', template (env_SSH_AUTH_SOCK sys) @ '':/tmp/ssh_sock:z'',
            ''-e'', ''SSH_AUTH_SOCK=/tmp/ssh_sock'']
      else [])"

text \<open>Lines 52 to 64, the user the container runs as.\<close>

definition dockerUser ::
  "'w sys \<Rightarrow> string \<Rightarrow> 'w state \<Rightarrow> (js_error + string) \<times> 'w state" where
  "dockerUser sys bindPath s =
     (if platform sys = ''linux''
      then (Inr (decimal (getuid sys)), s)
      else on_world (getDockerUid sys bindPath) s)"

text \<open>Lines 67 to 71, the command inside the container.\<close>

definition shellOrDirect :: "bool \<Rightarrow> string list \<Rightarrow> string list" where
  "shellOrDirect useShellAlways commandAndArguments =
     (if useShellAlways
      then [''/bin/bash'', ''-c'', [quote] @ join '' '' commandAndArguments @ [quote]]
      else commandAndArguments)"

text \<open>The two branches of line 25.  Outside docker mode the command is the
  first element of the array, \<open>undefined\<close> when the array is empty.\<close>

definition commandLine ::
  "'w sys \<Rightarrow> string list \<Rightarrow> string \<Rightarrow> options \<Rightarrow> bool \<Rightarrow> 'w state
     \<Rightarrow> (js_error + string option \<times> string list) \<times> 'w state" where
  "commandLine sys commandAndArguments servicePath options useShellAlways s =
     (if dockerizePip options then
        (case dockerImageFor sys options s of
           (Inl e, s1) \<Rightarrow> (Inl e, s1)
         | (Inr img, s1) \<Rightarrow>
             (case on_world (getBindPath sys servicePath) (log (Docker_image img) s1) of
                (Inl e, s2) \<Rightarrow> (Inl e, s2)
              | (Inr bindPath, s2) \<Rightarrow>
                  (case dockerUser sys bindPath s2 of
                     (Inl e, s3) \<Rightarrow> (Inl e, s3)
                   | (Inr uid, s3) \<Rightarrow>
                       (Inr (Some ''docker'',
                             [''run'', ''--rm'', ''-v'', bindPath @ '':/var/task:z'']
                             @ sshOptions sys options
                             @ [''-u'', uid]
                             @ [img]
                             @ shellOrDirect useShellAlways commandAndArguments), s3))))
      else
        (case commandAndArguments of
           [] \<Rightarrow> (Inr (None, []), s)
         | cmd # cmdOptions \<Rightarrow> (Inr (Some cmd, cmdOptions), s)))"

text \<open>Lines 81 to 85: the output is logged in verbose mode, when there is any.\<close>

definition logOutput :: "options \<Rightarrow> spawn_result \<Rightarrow> 'w state \<Rightarrow> 'w state" where
  "logOutput options res s =
     (if verbose options \<and> truthy (res_stdout res)
      then log (Output (template (res_stdout res))) s
      else s)"

text \<open>Lines 86 to 97: what is thrown.\<close>

definition outcome :: "options \<Rightarrow> spawn_result \<Rightarrow> js_error + unit" where
  "outcome options res =
     (case res_error res of
        Some e \<Rightarrow>
          (if err_code e = Some ''ENOENT'' then
             (if dockerizePip options
              then Inl (new_Error ''docker not found! Please install it.'')
              else Inl (new_Error (pythonBin options @ '' not found! Try the pythonBin option.'')))
           else Inl e)
      | None \<Rightarrow>
          (if res_status res \<noteq> Some 0 then Inl (new_Error (res_stderr res)) else Inr ()))"

text \<open>\<open>spawnSync\<close> refuses a command that is not a string (the first element
  of an empty array) with a \<open>TypeError\<close>, before it starts anything; so does
  \<open>path.join\<close> for a path that is not a string.\<close>

definition invalid_arg :: "string \<Rightarrow> js_error" where
  "invalid_arg name =
     JsError (Some ''ERR_INVALID_ARG_TYPE'')
       (''The '' @ [CHR 0x22] @ name @ [CHR 0x22]
          @ '' argument must be of type string. Received undefined'')"

definition executeCommand ::
  "'w sys \<Rightarrow> string list \<Rightarrow> string \<Rightarrow> options \<Rightarrow> bool \<Rightarrow> 'w state
     \<Rightarrow> (js_error + unit) \<times> 'w state" where
  "executeCommand sys commandAndArguments servicePath options useShellAlways s =
     (case commandLine sys commandAndArguments servicePath options useShellAlways s of
        (Inl e, s1) \<Rightarrow> (Inl e, s1)
      | (Inr (cmd, cmdOptions), s1) \<Rightarrow>
          (case cmd of
             None \<Rightarrow> (Inl (invalid_arg ''file''), log (Running (template cmd) cmdOptions) s1)
           | Some file \<Rightarrow>
               (case on_world (spawnSync sys file cmdOptions servicePath)
                       (log (Running (template cmd) cmdOptions) s1) of
                  (res, s2) \<Rightarrow>
                    (outcome options res,
                     logOutput options res (started file cmdOptions servicePath s2)))))"

subsection \<open>\<open>installRequirements\<close>, \<open>runPostInstallScript\<close>, \<open>copyVendors\<close>\<close>

text \<open>Lines 124 to 129, the \<open>pip\<close> command.\<close>

definition pipCmd :: "'w sys \<Rightarrow> options \<Rightarrow> string \<Rightarrow> string \<Rightarrow> string list" where
  "pipCmd sys options targetRequirementsFolder dotSlsReqs =
     [pythonBin options, ''-m'', ''pip'', ''--isolated'', ''install'',
      ''-t'', dockerPathForWin sys options targetRequirementsFolder,
      ''-r'', dockerPathForWin sys options dotSlsReqs]
     @ pipCmdExtraArgs options"

definition installRequirements ::
  "'w sys \<Rightarrow> string \<Rightarrow> string \<Rightarrow> string \<Rightarrow> options \<Rightarrow> 'w state
     \<Rightarrow> (js_error + unit) \<times> 'w state" where
  "installRequirements sys requirementsPath targetFolder servicePath options s =
     (let targetRequirementsFolder = path_join sys targetFolder ''requirements'' in
      case on_world (ensureDirSync sys targetRequirementsFolder) s of
        (Inl e, s1) \<Rightarrow> (Inl e, s1)
      | (Inr _, s1) \<Rightarrow>
          (let dotSlsReqs = path_join sys targetFolder ''requirements.txt'' in
           case (if usePipenv options
                    \<and> existsSync sys (path_join sys servicePath ''Pipfile'') (world s1)
                 then generateRequirementsFile sys dotSlsReqs dotSlsReqs options s1
                 else generateRequirementsFile sys requirementsPath dotSlsReqs options s1) of
             (Inl e, s2) \<Rightarrow> (Inl e, s2)
           | (Inr _, s2) \<Rightarrow>
               executeCommand sys (pipCmd sys options targetRequirementsFolder dotSlsReqs)
                 servicePath options False
                 (log (Installing requirementsPath targetFolder) s2)))"

definition runPostInstallScript ::
  "'w sys \<Rightarrow> string \<Rightarrow> string list option \<Rightarrow> string \<Rightarrow> string \<Rightarrow> options \<Rightarrow> 'w state
     \<Rightarrow> (js_error + unit) \<times> 'w state" where
  "runPostInstallScript sys command cmdArgs targetFolder servicePath options s =
     (let targetRequirementsFolder = path_join sys targetFolder ''requirements'';
          cmdArgs' = (case cmdArgs of None \<Rightarrow> [] | Some args \<Rightarrow> args);
          cmd = [command, targetRequirementsFolder] @ cmdArgs'
      in executeCommand sys cmd servicePath options True s)"

text \<open>The callback of \<open>readdirSync(vendorFolder).map\<close>, run on each entry in turn.\<close>

fun copyVendorFiles ::
  "'w sys \<Rightarrow> string \<Rightarrow> string \<Rightarrow> string list \<Rightarrow> 'w state \<Rightarrow> (js_error + unit) \<times> 'w state" where
  "copyVendorFiles sys vendorFolder targetRequirementsFolder [] s = (Inr (), s)"
| "copyVendorFiles sys vendorFolder targetRequirementsFolder (file # files) s =
     (let source = path_join sys vendorFolder file;
          dest = path_join sys targetRequirementsFolder file
      in case (if existsSync sys dest (world s)
               then on_world (rimrafSync sys dest) s
               else (Inr (), s)) of
           (Inl e, s1) \<Rightarrow> (Inl e, s1)
         | (Inr _, s1) \<Rightarrow>
             (case on_world (copySync sys source dest) s1 of
                (Inl e, s2) \<Rightarrow> (Inl e, s2)
              | (Inr _, s2) \<Rightarrow>
                  copyVendorFiles sys vendorFolder targetRequirementsFolder files s2))"

definition copyVendors ::
  "'w sys \<Rightarrow> string \<Rightarrow> string \<Rightarrow> 'w state \<Rightarrow> (js_error + unit) \<times> 'w state" where
  "copyVendors sys vendorFolder targetFolder s =
     (let targetRequirementsFolder = path_join sys targetFolder ''requirements'';
          s1 = log (Copying_vendor vendorFolder targetRequirementsFolder) s
      in case readdirSync sys vendorFolder (world s1) of
           Inl e \<Rightarrow> (Inl e, s1)
         | Inr files \<Rightarrow> copyVendorFiles sys vendorFolder targetRequirementsFolder files s1)"

subsection \<open>\<open>installAllRequirements\<close>\<close>

text \<open>What \<open>this\<close> holds: the service path, \<open>serverless.service.package.individually\<close>,
  the values of \<open>serverless.service.functions\<close> and the options.  The functions
  are objects that the loop writes to, so a run returns them too.\<close>

record plugin =
  this_servicePath :: string
  this_individually :: bool
  this_functions :: "func list"
  this_options :: options

text \<open>Lines 219 to 236, and 248 to 265: the vendor copy and the hook, each when it is set.\<close>

definition vendorAndHook ::
  "'w sys \<Rightarrow> string option \<Rightarrow> string option \<Rightarrow> string list option \<Rightarrow> string \<Rightarrow> string
     \<Rightarrow> options \<Rightarrow> 'w state \<Rightarrow> (js_error + unit) \<times> 'w state" where
  "vendorAndHook sys vendorFolder script scriptArgs targetFolder servicePath options s =
     (case (if truthy vendorFolder
            then copyVendors sys (template vendorFolder) targetFolder s
            else (Inr (), s)) of
        (Inl e, s1) \<Rightarrow> (Inl e, s1)
      | (Inr _, s1) \<Rightarrow>
          (if truthy script
           then runPostInstallScript sys (template script) scriptArgs targetFolder
                  servicePath options s1
           else (Inr (), s1)))"

text \<open>Lines 208 to 210: \<open>if (!get(f, 'module')) set(f, ['module'], '.')\<close>.\<close>

definition defaultModule :: "func \<Rightarrow> func" where
  "defaultModule f = (if \<not> truthy (f_module f) then f\<lparr>f_module := Some ''.''\<rparr> else f)"

text \<open>The callback of \<open>forEach\<close>, run on each function in turn; \<open>doneModules\<close> is
  the array the callback closes over.  An exception ends the loop: the functions
  not reached are as they were.\<close>

fun forEachFunction ::
  "'w sys \<Rightarrow> string \<Rightarrow> options \<Rightarrow> func list \<Rightarrow> string list \<Rightarrow> 'w state
     \<Rightarrow> (js_error + string list) \<times> 'w state \<times> func list" where
  "forEachFunction sys servicePath options [] doneModules s = (Inr doneModules, s, [])"
| "forEachFunction sys servicePath options (f # fs) doneModules s =
     (let f' = defaultModule f in
      case f_module f' of
        None \<Rightarrow> (Inl (invalid_arg ''path''), s, f' # fs)
      | Some m \<Rightarrow>
          if m \<notin> set doneModules then
            (case installRequirements sys (path_join sys m (fileName options))
                    (path_join sys ''.serverless'' m) servicePath options s of
               (Inl e, s1) \<Rightarrow> (Inl e, s1, f' # fs)
             | (Inr _, s1) \<Rightarrow>
                 (case vendorAndHook sys (f_vendor f') (f_pipPostInstallScript f')
                         (f_pipPostInstallArgs f') (path_join sys ''.serverless'' m)
                         servicePath options s1 of
                    (Inl e, s2) \<Rightarrow> (Inl e, s2, f' # fs)
                  | (Inr _, s2) \<Rightarrow>
                      (case forEachFunction sys servicePath options fs (doneModules @ [m]) s2 of
                         (r, s3, fs') \<Rightarrow> (r, s3, f' # fs'))))
          else
            (case forEachFunction sys servicePath options fs doneModules s of
               (r, s3, fs') \<Rightarrow> (r, s3, f' # fs')))"

definition installAllRequirements ::
  "'w sys \<Rightarrow> plugin \<Rightarrow> 'w state \<Rightarrow> (js_error + unit) \<times> 'w state \<times> func list" where
  "installAllRequirements sys this s =
     (let options = this_options this in
      case on_world (ensureDirSync sys (path_join sys (this_servicePath this) ''.serverless'')) s of
        (Inl e, s1) \<Rightarrow> (Inl e, s1, this_functions this)
      | (Inr _, s1) \<Rightarrow>
          if this_individually this then
            (case forEachFunction sys (this_servicePath this) options (this_functions this) [] s1 of
               (Inl e, s2, fs') \<Rightarrow> (Inl e, s2, fs')
             | (Inr _, s2, fs') \<Rightarrow> (Inr (), s2, fs'))
          else
            (case installRequirements sys (fileName options) ''.serverless''
                    (this_servicePath this) options s1 of
               (Inl e, s2) \<Rightarrow> (Inl e, s2, this_functions this)
             | (Inr _, s2) \<Rightarrow>
                 (case vendorAndHook sys (vendor options) (pipPostInstallScript options)
                         (pipPostInstallArgs options) ''.serverless'' (this_servicePath this)
                         options s2 of
                    (r, s3) \<Rightarrow> (r, s3, this_functions this))))"


section \<open>What the specification says, in its own words\<close>

text \<open>The package name of a manifest line: the text before the first of
  \<open>=\<close>, \<open><\<close>, \<open>>\<close>, space and tab, trimmed.\<close>

definition spec_packageName :: "string \<Rightarrow> string" where
  "spec_packageName line =
     trim (takeWhile (\<lambda>c. c \<notin> {CHR ''='', CHR ''<'', CHR ''>'', CHR '' '', CHR 0x09}) line)"

text \<open>A text with every carriage return that is directly followed by a line
  feed removed.\<close>

fun crlf_to_lf :: "string \<Rightarrow> string" where
  "crlf_to_lf (c # d # cs) =
     (if c = CR \<and> d = LF then LF # crlf_to_lf cs else c # crlf_to_lf (d # cs))"
| "crlf_to_lf cs = cs"

text \<open>A line without its last character, when that is a carriage return.\<close>

definition strip_cr :: "string \<Rightarrow> string" where
  "strip_cr l = (if l \<noteq> [] \<and> last l = CR then butlast l else l)"

text \<open>The POSIX-like ones among the platforms Node.js documents for
  \<open>process.platform\<close>: all but \<open>win32\<close>.\<close>

definition spec_posix_like :: "string \<Rightarrow> bool" where
  "spec_posix_like p =
     (p \<in> {''aix'', ''darwin'', ''freebsd'', ''linux'', ''openbsd'', ''sunos''})"


section \<open>What a run starts\<close>

text \<open>The module of a function, as the loop sees it after line 210.\<close>

definition moduleOf :: "func \<Rightarrow> string" where
  "moduleOf f = template (f_module (defaultModule f))"





text \<open>A call of \<open>spawnSync\<close> starts a command handed to \<open>executeCommand\<close> when
  its working directory is the service path and, outside docker mode, its
  command and arguments are the command handed over; in docker mode, when it
  runs \<open>docker\<close> and its arguments end with the command handed over, as lines
  67 to 71 append it.\<close>

definition startedFrom ::
  "options \<Rightarrow> string \<Rightarrow> (string \<times> string list \<times> string) \<Rightarrow> (string list \<times> bool) \<Rightarrow> bool" where
  "startedFrom options servicePath call handed =
     (case call of (file, cmdOptions, cwd) \<Rightarrow>
        (case handed of (commandAndArguments, useShellAlways) \<Rightarrow>
           cwd = servicePath
           \<and> (if dockerizePip options
                then file = ''docker''
                     \<and> suffix (shellOrDirect useShellAlways commandAndArguments) cmdOptions
                else file # cmdOptions = commandAndArguments)))"

text \<open>The calls made follow the commands expected, one call for each command
  in order, up to where the run stopped; all of them when the run returned.\<close>

definition startedAlong ::
  "options \<Rightarrow> string \<Rightarrow> (string \<times> string list \<times> string) list
     \<Rightarrow> (string list \<times> bool) list \<Rightarrow> bool \<Rightarrow> bool" where
  "startedAlong options servicePath calls expected returned =
     (length calls \<le> length expected
      \<and> list_all2 (startedFrom options servicePath) calls (take (length calls) expected)
      \<and> (returned \<longrightarrow> length calls = length expected))"


section \<open>A small system to run the functions on\<close>

text \<open>\<open>path.join\<close> of Node.js on a POSIX platform, for two arguments: the
  arguments that are not empty are joined with a slash and the result is
  normalised.  Normalising goes through the segments between slashes: an empty
  segment and \<open>.\<close> are dropped; \<open>..\<close> removes the segment before it, unless there is
  none or it is \<open>..\<close> itself, and then \<open>..\<close> is kept when the path is relative; a
  slash at the start and one at the end are kept.\<close>

fun split_slash :: "string \<Rightarrow> string list" where
  "split_slash [] = [[]]"
| "split_slash (c # cs) =
     (if c = CHR ''/'' then [] # split_slash cs else cons_first c (split_slash cs))"

text \<open>\<open>res\<close> holds the segments kept so far, the last one first.\<close>

fun normalizeString :: "bool \<Rightarrow> string list \<Rightarrow> string list \<Rightarrow> string list" where
  "normalizeString allowAboveRoot res [] = rev res"
| "normalizeString allowAboveRoot res (seg # segs) =
     (if seg = [] \<or> seg = ''.'' then normalizeString allowAboveRoot res segs
      else if seg = ''..'' then
        (case res of
           [] \<Rightarrow> normalizeString allowAboveRoot (if allowAboveRoot then [''..''] else []) segs
         | l # res' \<Rightarrow>
             if l = ''..''
             then normalizeString allowAboveRoot (if allowAboveRoot then ''..'' # res else res) segs
             else normalizeString allowAboveRoot res' segs)
      else normalizeString allowAboveRoot (seg # res) segs)"

definition posix_normalize :: "string \<Rightarrow> string" where
  "posix_normalize path =
     (if path = [] then ''.''
      else
        (let isAbsolute = (hd path = CHR ''/'');
             trailingSeparator = (last path = CHR ''/'');
             p = join ''/'' (normalizeString (\<not> isAbsolute) [] (split_slash path))
         in if p = [] then (if isAbsolute then ''/'' else if trailingSeparator then ''./'' else ''.'')
            else (if isAbsolute then ''/'' else []) @ p @ (if trailingSeparator then ''/'' else [])))"

definition posix_join :: "string \<Rightarrow> string \<Rightarrow> string" where
  "posix_join a b =
     posix_normalize (if a = [] then b else if b = [] then a else a @ ''/'' @ b)"

text \<open>The world is a list of files, the newest first.  Every directory exists
  and is empty, every process starts and exits with status 0, and the docker
  helpers answer with fixed values.\<close>

definition no_such_file :: js_error where
  "no_such_file = JsError (Some ''ENOENT'') ''no such file or directory''"

definition exit_0 :: spawn_result where
  "exit_0 = \<lparr>res_error = None, res_status = Some 0, res_stdout = Some [], res_stderr = []\<rparr>"

definition demo_sys :: "(string \<times> string) list sys" where
  "demo_sys =
     \<lparr>platform = ''linux'',
      getuid = 1000,
      env_HOME = Some ''/home/dev'',
      env_SSH_AUTH_SOCK = None,
      path_join = posix_join,
      spawnSync = (\<lambda>cmd cmdOptions cwd w. (exit_0, w)),
      buildImage = (\<lambda>dockerFile w. (Inr ''sls-py-reqs-custom'', w)),
      getBindPath = (\<lambda>servicePath w. (Inr servicePath, w)),
      getDockerUid = (\<lambda>bindPath w. (Inr ''0'', w)),
      ensureDirSync = (\<lambda>dir w. (Inr (), w)),
      existsSync = (\<lambda>p w. map_of w p \<noteq> None),
      readFileSync = (\<lambda>p w. case map_of w p of None \<Rightarrow> Inl no_such_file | Some text \<Rightarrow> Inr text),
      writeFileSync = (\<lambda>p text w. (Inr (), (p, text) # w)),
      readdirSync = (\<lambda>dir w. Inr []),
      copySync = (\<lambda>src dest w. (Inr (), w)),
      rimrafSync = (\<lambda>p w. (Inr (), w))\<rparr>"

definition demo_options :: options where
  "demo_options =
     \<lparr>dockerizePip = False, dockerFile = None, dockerImage = ''lambci/lambda:build-python3.6'',
      dockerSsh = False, verbose = False, pythonBin = ''python3'', pipCmdExtraArgs = [],
      usePipenv = False, noDeploy = Some [''boto3''], fileName = ''requirements.txt'',
      vendor = None, pipPostInstallScript = None, pipPostInstallArgs = None\<rparr>"

definition demo_manifest :: string where
  "demo_manifest = ''numpy==1.2.3'' @ [LF] @ ''boto3'' @ [LF] @ ''simplejson>=3.0''"

definition demo_files :: "(string \<times> string) list" where
  "demo_files =
     [(''requirements.txt'', demo_manifest),
      (''svc2/requirements.txt'', ''six'' @ [CR, LF] @ ''boto3'')]"

definition demo_state :: "(string \<times> string) list state" where
  "demo_state = \<lparr>world = demo_files, cli_log = [], spawned = []\<rparr>"

text \<open>Three functions: two of module \<open>.\<close> (one by default), one of module \<open>svc2\<close>
  with a vendor folder and a hook.\<close>

definition demo_functions :: "func list" where
  "demo_functions =
     [\<lparr>f_module = None, f_vendor = None,
       f_pipPostInstallScript = None, f_pipPostInstallArgs = None\<rparr>,
      \<lparr>f_module = Some ''svc2'', f_vendor = Some ''vendored'',
       f_pipPostInstallScript = Some ''./strip.sh'', f_pipPostInstallArgs = None\<rparr>,
      \<lparr>f_module = Some ''.'', f_vendor = None,
       f_pipPostInstallScript = None, f_pipPostInstallArgs = None\<rparr>]"

definition demo_plugin :: plugin where
  "demo_plugin =
     \<lparr>this_servicePath = ''/srv'', this_individually = True,
      this_functions = demo_functions, this_options = demo_options\<rparr>"

text \<open>The same system where no process can be started, the executable not
  being found; where every process exits with status 1 and \<open>conflict\<close> on its
  standard error; and on macOS, run by the user 501.\<close>

definition enoent_sys :: "(string \<times> string) list sys" where
  "enoent_sys = demo_sys\<lparr>spawnSync := (\<lambda>cmd cmdOptions cwd w.
      (\<lparr>res_error = Some (JsError (Some ''ENOENT'') ''spawnSync /bin/sh ENOENT''),
        res_status = None, res_stdout = None, res_stderr = []\<rparr>, w))\<rparr>"

definition conflict_sys :: "(string \<times> string) list sys" where
  "conflict_sys = demo_sys\<lparr>spawnSync := (\<lambda>cmd cmdOptions cwd w.
      (\<lparr>res_error = None, res_status = Some 1, res_stdout = Some [],
        res_stderr = ''conflict''\<rparr>, w))\<rparr>"

definition darwin_sys :: "(string \<times> string) list sys" where
  "darwin_sys = demo_sys\<lparr>platform := ''darwin'', getuid := 501\<rparr>"


section \<open>Splitting, joining and trimming\<close>

text \<open>A split is never empty, and its first piece is the text before the
  first separator.\<close>

lemma cons_first_not_Nil: "cons_first c ps \<noteq> []"
  by (simp add: cons_first_def split: list.split)

lemma split_delims_not_Nil: "split_delims s \<noteq> []"
  by (induction s) (simp_all add: cons_first_not_Nil)

lemma hd_cons_first: "ps \<noteq> [] \<Longrightarrow> hd (cons_first c ps) = c # hd ps"
  by (cases ps) (simp_all add: cons_first_def)

lemma hd_split_delims: "hd (split_delims s) = takeWhile (\<lambda>c. \<not> is_delim c) s"
  by (induction s) (simp_all add: hd_cons_first split_delims_not_Nil)

lemma split_lines_not_Nil: "split_lines s \<noteq> []"
  by (induction s rule: split_lines.induct) (simp_all add: cons_first_not_Nil)

text \<open>The lines of a text hold no line feed.  Splitting a join of such
  lines gives the lines back, but for a carriage return at the end of a line
  that is not the last: it is read as part of the line end.\<close>

lemma LF_neq_CR [simp]: "LF \<noteq> CR" "CR \<noteq> LF"
  by (simp_all add: LF_def CR_def)

lemma split_lines_LF [simp]: "split_lines (LF # r) = [] # split_lines r"
  by (cases r) simp_all

lemma split_lines_CRLF [simp]: "split_lines (CR # LF # r) = [] # split_lines r"
  by simp

lemma split_lines_no_LF: "l \<in> set (split_lines s) \<Longrightarrow> LF \<notin> set l"
proof (induction s arbitrary: l rule: split_lines.induct)
  case 1
  then show ?case by simp
next
  case (2 c)
  then show ?case by (auto split: if_splits)
next
  case (3 c d cs)
  consider "c = CR \<and> d = LF" | "c = LF" | "\<not> (c = CR \<and> d = LF)" "c \<noteq> LF" by blast
  then show ?case
  proof cases
    case 1
    with 3 show ?thesis by auto
  next
    case 2
    with 3 show ?thesis by auto
  next
    case 3
    then have eq: "split_lines (c # d # cs) = cons_first c (split_lines (d # cs))" by auto
    obtain p ps where ps: "split_lines (d # cs) = p # ps"
      using split_lines_not_Nil[of "d # cs"] by (cases "split_lines (d # cs)") auto
    have IH: "\<And>l. l \<in> set (p # ps) \<Longrightarrow> LF \<notin> set l"
      using "3.IH"(3)[OF 3(1) 3(2)] ps by simp
    from "3.prems" eq ps have "l = c # p \<or> l \<in> set ps" by (simp add: cons_first_def)
    with IH 3(2) show ?thesis by auto
  qed
qed

lemma split_lines_single: "LF \<notin> set l \<Longrightarrow> split_lines l = [l]"
  by (induction l rule: split_lines.induct) (auto simp: cons_first_def)

lemma strip_cr_Cons: "l \<noteq> [] \<Longrightarrow> strip_cr (c # l) = c # strip_cr l"
  by (simp add: strip_cr_def)

lemma split_lines_line_strip:
  "LF \<notin> set l \<Longrightarrow> split_lines (l @ LF # r) = strip_cr l # split_lines r"
proof (induction l rule: split_lines.induct)
  case 1
  then show ?case by (simp add: strip_cr_def)
next
  case (2 c)
  then show ?case by (auto simp: cons_first_def strip_cr_def)
next
  case (3 c d cs)
  then have "split_lines ((c # d # cs) @ LF # r) = cons_first c (split_lines ((d # cs) @ LF # r))"
    by auto
  also have "split_lines ((d # cs) @ LF # r) = strip_cr (d # cs) # split_lines r"
    using 3 by auto
  finally show ?case by (simp add: cons_first_def strip_cr_Cons)
qed

lemma split_lines_join_strip:
  "ls \<noteq> [] \<Longrightarrow> \<forall>l\<in>set ls. LF \<notin> set l
     \<Longrightarrow> split_lines (join [LF] ls) = map strip_cr (butlast ls) @ [last ls]"
proof (induction "[LF]" ls rule: join.induct)
  case 1
  then show ?case by simp
next
  case (2 x)
  then show ?case by (simp add: split_lines_single)
next
  case (3 x y ys)
  then show ?case by (simp add: split_lines_line_strip)
qed

text \<open>A carriage return at the end of a line does not change whether the line
  is kept.\<close>

lemma trim_snoc_CR: "trim (xs @ [CR]) = trim xs"
proof (cases "\<forall>x\<in>set xs. is_space x")
  case True
  have sp: "is_space CR" by (simp add: is_space_def CR_def)
  from True sp have dw: "dropWhile is_space (xs @ [CR]) = []" "dropWhile is_space xs = []"
    using dropWhile_eq_Nil_conv[of is_space "xs @ [CR]"] dropWhile_eq_Nil_conv[of is_space xs]
    by auto
  show ?thesis unfolding trim_def dw by (rule refl)
next
  case False
  have sp: "is_space CR" by (simp add: is_space_def CR_def)
  from False obtain x where "x \<in> set xs" "\<not> is_space x" by blast
  then have "dropWhile is_space (xs @ [CR]) = dropWhile is_space xs @ [CR]"
    by simp
  then show ?thesis unfolding trim_def using sp by simp
qed

lemma is_delim_CR: "\<not> is_delim CR"
  by (simp add: is_delim_def CR_def)

lemma keep_snoc_CR: "keepRequirement D (xs @ [CR]) = keepRequirement D xs"
proof (cases "\<forall>x\<in>set xs. \<not> is_delim x")
  case True
  then have tw: "takeWhile (\<lambda>c. \<not> is_delim c) (xs @ [CR]) = xs @ [CR]"
    "takeWhile (\<lambda>c. \<not> is_delim c) xs = xs"
    by (simp_all add: is_delim_CR)
  show ?thesis unfolding keepRequirement_def hd_split_delims tw trim_snoc_CR ..
next
  case False
  then obtain x where "x \<in> set xs" "is_delim x" by blast
  then have "takeWhile (\<lambda>c. \<not> is_delim c) (xs @ [CR]) = takeWhile (\<lambda>c. \<not> is_delim c) xs"
    by simp
  then show ?thesis by (simp add: keepRequirement_def hd_split_delims)
qed

lemma keep_strip_cr: "keepRequirement D (strip_cr l) = keepRequirement D l"
proof (cases "l \<noteq> [] \<and> last l = CR")
  case True
  then have "l = butlast l @ [CR]" by (metis append_butlast_last_id)
  then show ?thesis using keep_snoc_CR[of D "butlast l"] True by (simp add: strip_cr_def)
next
  case False
  then show ?thesis by (auto simp add: strip_cr_def)
qed

text \<open>The callback of the filter decides by the package name of the
  specification.\<close>

lemma keep_spec: "keepRequirement D l = (spec_packageName l \<notin> D)"
proof -
  have "(\<lambda>c. \<not> is_delim c) = (\<lambda>c. c \<notin> {CHR ''='', CHR ''<'', CHR ''>'', CHR '' '', CHR 0x09})"
    by (auto simp: is_delim_def)
  then show ?thesis by (simp add: keepRequirement_def hd_split_delims spec_packageName_def)
qed

text \<open>Joining the lines of a text rewrites its line ends.\<close>

lemma join_cons_first: "ps \<noteq> [] \<Longrightarrow> join sep (cons_first c ps) = c # join sep ps"
  by (cases ps; cases "tl ps") (auto simp: cons_first_def)

lemma join_Nil_Cons: "ps \<noteq> [] \<Longrightarrow> join sep ([] # ps) = sep @ join sep ps"
  by (cases ps) simp_all

lemma join_split_lines: "join [LF] (split_lines s) = crlf_to_lf s"
proof (induction s rule: split_lines.induct)
  case 1
  then show ?case by simp
next
  case (2 c)
  then show ?case by simp
next
  case (3 c d cs)
  consider "c = CR \<and> d = LF" | "c = LF" | "\<not> (c = CR \<and> d = LF)" "c \<noteq> LF" by blast
  then show ?case
  proof cases
    case 1
    with 3 show ?thesis by (simp add: join_Nil_Cons split_lines_not_Nil)
  next
    case 2
    with 3 have "join [LF] (split_lines (c # d # cs)) = LF # crlf_to_lf (d # cs)"
      by (simp add: join_Nil_Cons split_lines_not_Nil del: split_lines.simps(3))
    with 2 show ?thesis by simp
  next
    case 3
    then have "split_lines (c # d # cs) = cons_first c (split_lines (d # cs))" by auto
    then have "join [LF] (split_lines (c # d # cs)) = c # join [LF] (split_lines (d # cs))"
      by (simp add: join_cons_first split_lines_not_Nil del: split_lines.simps(3))
    with 3 "3.IH"(3) show ?thesis by simp
  qed
qed

lemma crlf_to_lf_id: "CR \<notin> set s \<Longrightarrow> crlf_to_lf s = s"
  by (induction s rule: crlf_to_lf.induct) auto

text \<open>Filtering the text written once more.\<close>

lemma length_join:
  "ls \<noteq> [] \<Longrightarrow> length (join sep ls) = sum_list (map length ls) + (length ls - 1) * length sep"
  by (induction sep ls rule: join.induct) auto


lemma strip_cr_snoc: "strip_cr (ys @ [y]) = (if y = CR then ys else ys @ [y])"
  by (simp add: strip_cr_def)

lemma length_strip_cr: "length (strip_cr l) \<le> length l"
  by (simp add: strip_cr_def)

lemma strip_cr_same_length: "length (strip_cr l) = length l \<Longrightarrow> strip_cr l = l"
  by (cases l rule: rev_cases) (auto simp: strip_cr_snoc strip_cr_def)

lemma strip_cr_fix: "(strip_cr l = l) = (l = [] \<or> last l \<noteq> CR)"
  by (cases l rule: rev_cases) (auto simp: strip_cr_snoc strip_cr_def)

lemma sum_length_strip_cr:
  "sum_list (map length (map strip_cr B)) = sum_list (map length B) \<Longrightarrow> map strip_cr B = B"
proof (induction B)
  case Nil
  then show ?case by simp
next
  case (Cons l B)
  have le1: "length (strip_cr l) \<le> length l" by (rule length_strip_cr)
  have le2: "sum_list (map length (map strip_cr B)) \<le> sum_list (map length B)"
    by (induction B) (simp_all add: add_mono length_strip_cr)
  from Cons.prems le1 le2 have "length (strip_cr l) = length l"
    and "sum_list (map length (map strip_cr B)) = sum_list (map length B)"
    by simp_all
  moreover from this(1) have "strip_cr l = l"
    by (rule strip_cr_same_length)
  ultimately show ?case using Cons.IH by simp
qed

lemma join_strip_eq:
  assumes "S \<noteq> []"
  shows "(join [LF] (map strip_cr (butlast S) @ [last S]) = join [LF] S)
           = (\<forall>l\<in>set (butlast S). l = [] \<or> last l \<noteq> CR)"
proof
  assume eq: "join [LF] (map strip_cr (butlast S) @ [last S]) = join [LF] S"
  let ?S' = "map strip_cr (butlast S) @ [last S]"
  have len: "length ?S' = length S" using assms by simp
  from eq have "length (join [LF] ?S') = length (join [LF] S)" by simp
  then have "sum_list (map length ?S') = sum_list (map length S)"
    using assms len by (simp add: length_join)
  moreover have "sum_list (map length S) = sum_list (map length (butlast S)) + length (last S)"
  proof -
    have "S = butlast S @ [last S]" using assms by simp
    then have "sum_list (map length S) = sum_list (map length (butlast S @ [last S]))" by simp
    then show ?thesis by simp
  qed
  ultimately have "sum_list (map length (map strip_cr (butlast S))) = sum_list (map length (butlast S))"
    by simp
  then have "map strip_cr (butlast S) = butlast S" by (rule sum_length_strip_cr)
  then have "\<forall>l\<in>set (butlast S). strip_cr l = l"
    using map_eq_conv[of strip_cr "butlast S" "\<lambda>x. x"] by simp
  then show "\<forall>l\<in>set (butlast S). l = [] \<or> last l \<noteq> CR" by (simp add: strip_cr_fix)
next
  assume "\<forall>l\<in>set (butlast S). l = [] \<or> last l \<noteq> CR"
  then have "\<forall>l\<in>set (butlast S). strip_cr l = l" by (simp add: strip_cr_fix)
  then have "map strip_cr (butlast S) = butlast S" by (simp add: map_idI)
  with assms show "join [LF] (map strip_cr (butlast S) @ [last S]) = join [LF] S" by simp
qed

lemma filteredRequirements_no_LF: "l \<in> set (filteredRequirements D t) \<Longrightarrow> LF \<notin> set l"
  by (auto simp: filteredRequirements_def dest: split_lines_no_LF)

lemma filteredRequirements_keep: "l \<in> set (filteredRequirements D t) \<Longrightarrow> keepRequirement D l"
  by (simp add: filteredRequirements_def)

lemma filteredText_Nil: "filteredText D [] = []"
  by (simp add: filteredText_def filteredRequirements_def)

lemma filteredRequirements_again:
  assumes "filteredRequirements D t \<noteq> []"
  shows "filteredRequirements D (filteredText D t)
           = map strip_cr (butlast (filteredRequirements D t)) @ [last (filteredRequirements D t)]"
proof -
  let ?S = "filteredRequirements D t"
  have "split_lines (join [LF] ?S) = map strip_cr (butlast ?S) @ [last ?S]"
    using assms filteredRequirements_no_LF by (intro split_lines_join_strip) auto
  moreover have "\<forall>l\<in>set (map strip_cr (butlast ?S) @ [last ?S]). keepRequirement D l"
    using assms filteredRequirements_keep[of _ D t]
    by (auto simp: keep_strip_cr dest: in_set_butlastD)
  ultimately have "filter (keepRequirement D) (split_lines (join [LF] ?S))
      = map strip_cr (butlast ?S) @ [last ?S]"
    by (simp only: filter_True)
  then show ?thesis
    unfolding filteredText_def filteredRequirements_def .
qed

lemma replace_first:
  "replace p r s =
     (if p \<in> set s then takeWhile (\<lambda>c. c \<noteq> p) s @ r @ tl (dropWhile (\<lambda>c. c \<noteq> p) s) else s)"
  by (induction s) auto


section \<open>The manifest filter\<close>

text \<open>
  C1. For every manifest, read as the lines \<open>split_lines text\<close>, and every
  denied set, \<open>generateRequirementsFile\<close> writes exactly the lines whose package
  name (the text before the first of \<open>=\<close>, \<open><\<close>, \<open>>\<close>, space and tab, trimmed) is not
  in the denied set, compared as it stands, in their order in the manifest.
\<close>

theorem filter_retains_exactly:
  assumes "readFileSync sys source (world s) = Inr text"
  shows "generateRequirementsFile sys source target options s
           = on_world (writeFileSync sys target
               (join [LF] (filter (\<lambda>line. spec_packageName line \<notin> noDeploySet options)
                                  (split_lines text)))) s
         \<and> subseq (filter (\<lambda>line. spec_packageName line \<notin> noDeploySet options) (split_lines text))
                  (split_lines text)"
proof -
  have "keepRequirement (noDeploySet options) = (\<lambda>line. spec_packageName line \<notin> noDeploySet options)"
    by (rule ext) (rule keep_spec)
  then show ?thesis
    using assms
    by (simp add: generateRequirementsFile_def filteredText_def filteredRequirements_def)
qed

theorem filter_retains_exactly_witness:
  "readFileSync demo_sys ''requirements.txt'' (world demo_state) = Inr demo_manifest
   \<and> generateRequirementsFile demo_sys ''requirements.txt'' ''.serverless/requirements.txt''
        demo_options demo_state
      = (Inr (), \<lparr>world = (''.serverless/requirements.txt'',
                             ''numpy==1.2.3'' @ [LF] @ ''simplejson>=3.0'')
                            # demo_files,
                  cli_log = [], spawned = []\<rparr>)"
proof -
  have h: "readFileSync demo_sys ''requirements.txt'' (world demo_state) = Inr demo_manifest"
    by (simp add: demo_sys_def demo_state_def demo_files_def)
  have "filter (\<lambda>line. spec_packageName line \<notin> noDeploySet demo_options) (split_lines demo_manifest)
          = [''numpy==1.2.3'', ''simplejson>=3.0'']"
    by (simp add: demo_manifest_def demo_options_def noDeploySet_def spec_packageName_def
        trim_def is_space_def cons_first_def LF_def CR_def)
  with filter_retains_exactly [OF h, of "''.serverless/requirements.txt''" demo_options] h
  show ?thesis
    by (simp add: on_world_def demo_sys_def demo_state_def)
qed

text \<open>
  C6, as the code has it.  The lines that survive are written in their order,
  each as it was read (the white space at either end of a line is kept), with
  one line feed between two lines: a line end written \<open>\r\n\<close> in the source is
  \<open>\n\<close> in the destination.  When no line is filtered out, the destination is the
  source with every \<open>\r\n\<close> replaced by \<open>\n\<close>; it is the source itself when that has
  no carriage return.
\<close>

theorem filter_keeps_lines_joins_with_LF:
  "subseq (filteredRequirements D text) (split_lines text)
   \<and> filteredText D text = join [LF] (filteredRequirements D text)
   \<and> (filteredRequirements D text = split_lines text \<longrightarrow> filteredText D text = crlf_to_lf text)
   \<and> (filteredRequirements D text = split_lines text \<and> CR \<notin> set text
        \<longrightarrow> filteredText D text = text)"
  by (simp add: filteredText_def filteredRequirements_def join_split_lines crlf_to_lf_id)

theorem filter_keeps_lines_joins_with_LF_witness:
  "filteredRequirements {''boto3''} (''numpy '' @ [LF] @ '' six'') = split_lines (''numpy '' @ [LF] @ '' six'')
   \<and> CR \<notin> set (''numpy '' @ [LF] @ '' six'')
   \<and> filteredText {''boto3''} (''numpy '' @ [LF] @ '' six'') = ''numpy '' @ [LF] @ '' six''"
proof -
  have h: "filteredRequirements {''boto3''} (''numpy '' @ [LF] @ '' six'')
             = split_lines (''numpy '' @ [LF] @ '' six'')
           \<and> CR \<notin> set (''numpy '' @ [LF] @ '' six'')"
    by (simp add: filteredRequirements_def keepRequirement_def trim_def is_space_def is_delim_def
        cons_first_def LF_def CR_def)
  with filter_keeps_lines_joins_with_LF [of "{''boto3''}" "''numpy '' @ [LF] @ '' six''"]
  show ?thesis by blast
qed

text \<open>
  C6, as the claim states it, fails: no line of the manifest \<open>a\r\nb\<close> is
  filtered out, and the text written is \<open>a\nb\<close>, not the source.
\<close>

theorem filter_rewrites_line_ends:
  "filteredRequirements {} (''a'' @ [CR, LF] @ ''b'') = split_lines (''a'' @ [CR, LF] @ ''b'')
   \<and> filteredText {} (''a'' @ [CR, LF] @ ''b'') = ''a'' @ [LF] @ ''b''
   \<and> filteredText {} (''a'' @ [CR, LF] @ ''b'') \<noteq> ''a'' @ [CR, LF] @ ''b''"
  by (simp add: filteredText_def filteredRequirements_def keepRequirement_def cons_first_def
      LF_def CR_def)

text \<open>
  C8, as the code has it.  Filtering the text written again, with the same
  denied set, gives the same text exactly when no line that was kept, other than
  the last one kept, ends in a carriage return.  On the lines kept, the
  callback of the filter drops nothing more.
\<close>

theorem filter_idempotent_iff:
  "((filteredText D (filteredText D t) = filteredText D t)
      = (\<forall>l\<in>set (butlast (filteredRequirements D t)). l = [] \<or> last l \<noteq> CR))
   \<and> filter (keepRequirement D) (filteredRequirements D t) = filteredRequirements D t"
proof
  show "(filteredText D (filteredText D t) = filteredText D t)
          = (\<forall>l\<in>set (butlast (filteredRequirements D t)). l = [] \<or> last l \<noteq> CR)"
  proof (cases "filteredRequirements D t = []")
    case True
    then have "filteredText D t = []" by (simp add: filteredText_def)
    with True show ?thesis by (simp add: filteredText_Nil)
  next
    case False
    have "filteredText D (filteredText D t) = join [LF] (filteredRequirements D (filteredText D t))"
      by (rule filteredText_def)
    also have "\<dots> = join [LF] (map strip_cr (butlast (filteredRequirements D t))
                         @ [last (filteredRequirements D t)])"
      by (simp only: filteredRequirements_again[OF False])
    finally have "(filteredText D (filteredText D t) = filteredText D t)
        = (join [LF] (map strip_cr (butlast (filteredRequirements D t))
                @ [last (filteredRequirements D t)]) = join [LF] (filteredRequirements D t))"
      by (simp only: filteredText_def[of D t])
    also note join_strip_eq[OF False]
    finally show ?thesis .
  qed
  show "filter (keepRequirement D) (filteredRequirements D t) = filteredRequirements D t"
    by (simp add: filteredRequirements_def)
qed

theorem filter_idempotent_iff_witness:
  "filteredRequirements {''boto3''} demo_manifest = [''numpy==1.2.3'', ''simplejson>=3.0'']
   \<and> filteredText {''boto3''} (filteredText {''boto3''} demo_manifest)
       = filteredText {''boto3''} demo_manifest"
proof -
  have kept: "filteredRequirements {''boto3''} demo_manifest = [''numpy==1.2.3'', ''simplejson>=3.0'']"
    by (simp add: demo_manifest_def filteredRequirements_def keepRequirement_def trim_def
        is_space_def is_delim_def cons_first_def LF_def CR_def)
  then have h: "\<forall>l\<in>set (butlast (filteredRequirements {''boto3''} demo_manifest)).
                  l = [] \<or> last l \<noteq> CR"
    by (simp add: CR_def)
  with filter_idempotent_iff [of "{''boto3''}" demo_manifest] kept show ?thesis by blast
qed

text \<open>
  C8, as the claim states it, fails: from the manifest \<open>x\r\r\nb\<close> and the empty
  denied set the filter writes \<open>x\r\nb\<close>, and from that it writes \<open>x\nb\<close>.
\<close>

theorem filter_not_idempotent:
  "filteredText {} (''x'' @ [CR, CR, LF] @ ''b'') = ''x'' @ [CR, LF] @ ''b''
   \<and> filteredText {} (filteredText {} (''x'' @ [CR, CR, LF] @ ''b'')) = ''x'' @ [LF] @ ''b''
   \<and> filteredText {} (filteredText {} (''x'' @ [CR, CR, LF] @ ''b''))
       \<noteq> filteredText {} (''x'' @ [CR, CR, LF] @ ''b'')"
  by (simp add: filteredText_def filteredRequirements_def keepRequirement_def cons_first_def
      LF_def CR_def)


section \<open>Path translation\<close>

text \<open>
  C5. \<open>dockerPathForWin\<close> returns the path as it is, unless the platform is
  \<open>win32\<close> (the one platform of Node.js whose separator is the backslash) and
  docker mode is on; then the first backslash of the path, if there is one,
  becomes a slash, and all that follows it is left as it is.
\<close>

theorem dockerPathForWin_first_separator:
  "dockerPathForWin sys options p =
     (if platform sys = ''win32'' \<and> dockerizePip options
      then (if backslash \<in> set p
            then takeWhile (\<lambda>c. c \<noteq> backslash) p @ ''/'' @ tl (dropWhile (\<lambda>c. c \<noteq> backslash) p)
            else p)
      else p)"
  by (simp add: dockerPathForWin_def replace_first)

theorem dockerPathForWin_first_separator_witness:
  "dockerPathForWin (demo_sys\<lparr>platform := ''win32''\<rparr>) (demo_options\<lparr>dockerizePip := True\<rparr>)
       (''C:'' @ [backslash] @ ''proj'' @ [backslash] @ ''reqs.txt'')
     = ''C:/proj'' @ [backslash] @ ''reqs.txt''"
  using dockerPathForWin_first_separator
    [of "demo_sys\<lparr>platform := ''win32''\<rparr>" "demo_options\<lparr>dockerizePip := True\<rparr>"
        "''C:'' @ [backslash] @ ''proj'' @ [backslash] @ ''reqs.txt''"]
  by (simp add: demo_sys_def demo_options_def backslash_def)


section \<open>Running a command\<close>

lemma executeCommand_spawned:
  assumes "commandLine sys argv servicePath options useShell s = (Inr (Some file, cmdOptions), s1)"
    and "on_world (spawnSync sys file cmdOptions servicePath) (log (Running file cmdOptions) s1) = (res, s2)"
  shows "executeCommand sys argv servicePath options useShell s
           = (outcome options res, logOutput options res (started file cmdOptions servicePath s2))"
  using assms by (simp add: executeCommand_def template_def)

text \<open>
  C3. When the process cannot be started (\<open>spawnSync\<close> reports an error) and the
  error's code is \<open>ENOENT\<close>, \<open>executeCommand\<close> throws the tool-missing error:
  outside docker mode its message is \<open>options.pythonBin\<close> followed by
  \<open>not found! Try the pythonBin option.\<close>, and in docker mode it is
  \<open>docker not found! Please install it.\<close>  When the error has another code, the
  error itself is thrown.  When the process did start, neither happens: the
  call returns, or throws the error of a nonzero exit.
\<close>

theorem executeCommand_start_failure:
  assumes "commandLine sys argv servicePath options useShell s = (Inr (Some file, cmdOptions), s1)"
    and "on_world (spawnSync sys file cmdOptions servicePath) (log (Running file cmdOptions) s1) = (res, s2)"
  shows "(res_error res = Some e \<and> err_code e = Some ''ENOENT'' \<and> \<not> dockerizePip options
            \<longrightarrow> fst (executeCommand sys argv servicePath options useShell s)
                  = Inl (new_Error (pythonBin options @ '' not found! Try the pythonBin option.'')))
       \<and> (res_error res = Some e \<and> err_code e = Some ''ENOENT'' \<and> dockerizePip options
            \<longrightarrow> fst (executeCommand sys argv servicePath options useShell s)
                  = Inl (new_Error ''docker not found! Please install it.''))
       \<and> (res_error res = Some e \<and> err_code e \<noteq> Some ''ENOENT''
            \<longrightarrow> fst (executeCommand sys argv servicePath options useShell s) = Inl e)
       \<and> (res_error res = None
            \<longrightarrow> fst (executeCommand sys argv servicePath options useShell s)
                  = (if res_status res = Some 0 then Inr () else Inl (new_Error (res_stderr res))))"
  by (simp add: executeCommand_spawned [OF assms] outcome_def)

text \<open>On the system where no executable is found, for a \<open>pip\<close> command run natively.\<close>

theorem executeCommand_start_failure_witness:
  "fst (executeCommand enoent_sys [''python3'', ''-m'', ''pip''] ''/srv'' demo_options False demo_state)
     = Inl (JsError None ''python3 not found! Try the pythonBin option.'')"
proof -
  have c: "commandLine enoent_sys [''python3'', ''-m'', ''pip''] ''/srv'' demo_options False demo_state
             = (Inr (Some ''python3'', [''-m'', ''pip'']), demo_state)"
    by (simp add: commandLine_def demo_options_def)
  have r: "on_world (spawnSync enoent_sys ''python3'' [''-m'', ''pip''] ''/srv'')
              (log (Running ''python3'' [''-m'', ''pip'']) demo_state)
            = (\<lparr>res_error = Some (JsError (Some ''ENOENT'') ''spawnSync /bin/sh ENOENT''),
                res_status = None, res_stdout = None, res_stderr = []\<rparr>,
               log (Running ''python3'' [''-m'', ''pip'']) demo_state)"
    by (simp add: on_world_def enoent_sys_def demo_sys_def log_def)
  from executeCommand_start_failure [OF c r, of "JsError (Some ''ENOENT'') ''spawnSync /bin/sh ENOENT''"]
  show ?thesis by (simp add: demo_options_def new_Error_def)
qed

text \<open>
  C4. When the process starts and its exit status is not 0, \<open>executeCommand\<close>
  throws an error whose message is the captured standard error, as it is.
\<close>

theorem executeCommand_nonzero_exit:
  assumes "commandLine sys argv servicePath options useShell s = (Inr (Some file, cmdOptions), s1)"
    and "on_world (spawnSync sys file cmdOptions servicePath) (log (Running file cmdOptions) s1) = (res, s2)"
    and "res_error res = None"
    and "res_status res \<noteq> Some 0"
  shows "fst (executeCommand sys argv servicePath options useShell s) = Inl (JsError None (res_stderr res))"
  using assms(3,4) by (simp add: executeCommand_spawned [OF assms(1,2)] outcome_def new_Error_def)

text \<open>A command that exits with status 1 and \<open>conflict\<close> on its standard error.\<close>

theorem executeCommand_nonzero_exit_witness:
  "fst (executeCommand conflict_sys [''python3'', ''-m'', ''pip''] ''/srv'' demo_options False demo_state)
     = Inl (JsError None ''conflict'')"
proof -
  have c: "commandLine conflict_sys [''python3'', ''-m'', ''pip''] ''/srv'' demo_options False demo_state
             = (Inr (Some ''python3'', [''-m'', ''pip'']), demo_state)"
    by (simp add: commandLine_def demo_options_def)
  have r: "on_world (spawnSync conflict_sys ''python3'' [''-m'', ''pip''] ''/srv'')
              (log (Running ''python3'' [''-m'', ''pip'']) demo_state)
            = (\<lparr>res_error = None, res_status = Some 1, res_stdout = Some [], res_stderr = ''conflict''\<rparr>,
               log (Running ''python3'' [''-m'', ''pip'']) demo_state)"
    by (simp add: on_world_def conflict_sys_def demo_sys_def log_def)
  from executeCommand_nonzero_exit [OF c r] show ?thesis by simp
qed

text \<open>
  C10. \<open>runPostInstallScript\<close> hands to \<open>executeCommand\<close> the hook command, then
  the folder \<open>requirements\<close> under the target folder, then the hook's arguments
  in order (none when they are not set), to be run through a shell; outside
  docker mode that is the command line started.
\<close>

theorem runPostInstallScript_argv:
  "runPostInstallScript sys command cmdArgs targetFolder servicePath options s
     = executeCommand sys
         (command # path_join sys targetFolder ''requirements''
            # (case cmdArgs of None \<Rightarrow> [] | Some args \<Rightarrow> args))
         servicePath options True s
   \<and> (\<not> dockerizePip options \<longrightarrow>
        commandLine sys
         (command # path_join sys targetFolder ''requirements''
            # (case cmdArgs of None \<Rightarrow> [] | Some args \<Rightarrow> args))
         servicePath options True s
        = (Inr (Some command,
                path_join sys targetFolder ''requirements''
                  # (case cmdArgs of None \<Rightarrow> [] | Some args \<Rightarrow> args)), s))"
  by (simp add: runPostInstallScript_def commandLine_def)

theorem runPostInstallScript_argv_witness:
  "runPostInstallScript demo_sys ''./strip.sh'' (Some [''--all'']) ''.serverless'' ''/srv''
      demo_options demo_state
     = (Inr (),
        started ''./strip.sh'' [''.serverless/requirements'', ''--all''] ''/srv''
          (log (Running ''./strip.sh'' [''.serverless/requirements'', ''--all'']) demo_state))"
proof -
  have n: "\<not> dockerizePip demo_options" by (simp add: demo_options_def)
  from runPostInstallScript_argv [of demo_sys "''./strip.sh''" "Some [''--all'']" "''.serverless''"
      "''/srv''" demo_options demo_state] n
  show ?thesis
    by (simp add: executeCommand_def demo_sys_def on_world_def outcome_def logOutput_def
        exit_0_def template_def truthy_def demo_options_def log_def
        posix_join_def posix_normalize_def cons_first_def Let_def)
qed

text \<open>
  C7, as the code has it.  In docker mode, when the image and the bind path are
  there: on Linux (\<open>process.platform\<close> is \<open>linux\<close>) the arguments hold \<open>-u\<close> and
  the user id of the process; on every other platform, the other POSIX-like
  ones among them, they hold \<open>-u\<close> and what \<open>getDockerUid\<close> answers for the bind
  path, and the call throws when \<open>getDockerUid\<close> does.
\<close>

theorem docker_user_mapping:
  assumes "dockerizePip options"
    and "dockerImageFor sys options s = (Inr img, s1)"
    and "on_world (getBindPath sys servicePath) (log (Docker_image img) s1) = (Inr bindPath, s2)"
  shows "(platform sys = ''linux'' \<longrightarrow>
            commandLine sys argv servicePath options useShell s
              = (Inr (Some ''docker'',
                      [''run'', ''--rm'', ''-v'', bindPath @ '':/var/task:z'']
                      @ sshOptions sys options
                      @ [''-u'', decimal (getuid sys)]
                      @ [img]
                      @ shellOrDirect useShell argv), s2))
       \<and> (platform sys \<noteq> ''linux'' \<longrightarrow>
            (case on_world (getDockerUid sys bindPath) s2 of
               (Inl e, s3) \<Rightarrow> commandLine sys argv servicePath options useShell s = (Inl e, s3)
             | (Inr uid, s3) \<Rightarrow>
                 commandLine sys argv servicePath options useShell s
                   = (Inr (Some ''docker'',
                           [''run'', ''--rm'', ''-v'', bindPath @ '':/var/task:z'']
                           @ sshOptions sys options
                           @ [''-u'', uid]
                           @ [img]
                           @ shellOrDirect useShell argv), s3)))"
  using assms by (simp add: commandLine_def dockerUser_def split: prod.splits sum.splits)

theorem docker_user_mapping_witness:
  "commandLine demo_sys [''python3'', ''-m'', ''pip''] ''/srv''
      (demo_options\<lparr>dockerizePip := True\<rparr>) False demo_state
     = (Inr (Some ''docker'',
             [''run'', ''--rm'', ''-v'', ''/srv:/var/task:z'', ''-u'', ''1000'',
              ''lambci/lambda:build-python3.6'', ''python3'', ''-m'', ''pip'']),
        log (Docker_image ''lambci/lambda:build-python3.6'') demo_state)"
proof -
  have d: "dockerizePip (demo_options\<lparr>dockerizePip := True\<rparr>)" by simp
  have i: "dockerImageFor demo_sys (demo_options\<lparr>dockerizePip := True\<rparr>) demo_state
             = (Inr ''lambci/lambda:build-python3.6'', demo_state)"
    by (simp add: dockerImageFor_def demo_options_def truthy_def)
  have b: "on_world (getBindPath demo_sys ''/srv'')
             (log (Docker_image ''lambci/lambda:build-python3.6'') demo_state)
           = (Inr ''/srv'', log (Docker_image ''lambci/lambda:build-python3.6'') demo_state)"
    by (simp add: on_world_def demo_sys_def)
  from docker_user_mapping [OF d i b, of "[''python3'', ''-m'', ''pip'']" False]
  show ?thesis
    by (simp add: demo_sys_def demo_options_def sshOptions_def shellOrDirect_def
        decimal.simps digit_def)
qed

text \<open>
  C7, as the claim states it, fails on macOS, a POSIX-like host: the process
  runs as user 501 and the container is run as the user \<open>getDockerUid\<close> answers,
  here 0.
\<close>

theorem docker_user_on_macos:
  "spec_posix_like (platform darwin_sys)
   \<and> decimal (getuid darwin_sys) = ''501''
   \<and> commandLine darwin_sys [''python3'', ''-m'', ''pip''] ''/srv''
        (demo_options\<lparr>dockerizePip := True\<rparr>) False demo_state
      = (Inr (Some ''docker'',
              [''run'', ''--rm'', ''-v'', ''/srv:/var/task:z'', ''-u'', ''0'',
               ''lambci/lambda:build-python3.6'', ''python3'', ''-m'', ''pip'']),
         log (Docker_image ''lambci/lambda:build-python3.6'') demo_state)"
  by (simp add: spec_posix_like_def darwin_sys_def demo_sys_def demo_options_def
      commandLine_def dockerImageFor_def dockerUser_def sshOptions_def shellOrDirect_def
      on_world_def truthy_def decimal.simps digit_def log_def demo_state_def)


section \<open>The processes of a run\<close>

text \<open>Nothing but the call of \<open>spawnSync\<close> in \<open>executeCommand\<close> adds to the calls
  made.\<close>

lemma spawned_log [simp]: "spawned (log m s) = spawned s"
  by (simp add: log_def)







lemma logOutput_spawned [simp]: "spawned (logOutput options res s) = spawned s"
  by (simp add: logOutput_def)

text \<open>Calls that follow the commands expected, put one after the other.\<close>

lemma startedAlong_Nil [simp]: "startedAlong options servicePath [] [] b"
  by (simp add: startedAlong_def)










text \<open>The functions that claim a module first.\<close>

lemma defaultModule_module: "f_module (defaultModule f) = Some (moduleOf f)"
  by (cases "f_module f") (auto simp: moduleOf_def defaultModule_def truthy_def template_def)

lemma defaultModule_others:
  "f_vendor (defaultModule f) = f_vendor f"
  "f_pipPostInstallScript (defaultModule f) = f_pipPostInstallScript f"
  "f_pipPostInstallArgs (defaultModule f) = f_pipPostInstallArgs f"
  by (simp_all add: defaultModule_def)







text \<open>The loop: the calls it makes, the functions it skips, and what it writes
  to the functions.\<close>

lemma forEachFunction_step:
  "forEachFunction sys servicePath options (f # fs) doneModules s =
     (if moduleOf f \<notin> set doneModules then
        (case installRequirements sys (path_join sys (moduleOf f) (fileName options))
                (path_join sys ''.serverless'' (moduleOf f)) servicePath options s of
           (Inl e, s1) \<Rightarrow> (Inl e, s1, defaultModule f # fs)
         | (Inr _, s1) \<Rightarrow>
             (case vendorAndHook sys (f_vendor f) (f_pipPostInstallScript f)
                     (f_pipPostInstallArgs f) (path_join sys ''.serverless'' (moduleOf f))
                     servicePath options s1 of
                (Inl e, s2) \<Rightarrow> (Inl e, s2, defaultModule f # fs)
              | (Inr _, s2) \<Rightarrow>
                  (case forEachFunction sys servicePath options fs
                          (doneModules @ [moduleOf f]) s2 of
                     (r, s3, fs') \<Rightarrow> (r, s3, defaultModule f # fs'))))
      else
        (case forEachFunction sys servicePath options fs doneModules s of
           (r, s3, fs') \<Rightarrow> (r, s3, defaultModule f # fs')))"
  by (simp add: Let_def defaultModule_module defaultModule_others split: prod.splits sum.splits)



lemma forEachFunction_returns:
  "forEachFunction sys servicePath options fs doneModules s = (Inr d, s', fs')
     \<Longrightarrow> fs' = map defaultModule fs"
proof (induction fs arbitrary: doneModules s s' fs' d)
  case Nil
  then show ?case by simp
next
  case (Cons f fs)
  from Cons.prems Cons.IH show ?case
    by (auto simp: forEachFunction_step simp del: forEachFunction.simps
        split: prod.splits sum.splits if_splits)
qed

lemma forEachFunction_functions:
  "forEachFunction sys servicePath options fs doneModules s = (r, s', fs')
     \<Longrightarrow> list_all2 (\<lambda>f f'. f' = f \<or> f' = defaultModule f) fs fs'"
proof (induction fs arbitrary: doneModules s s' fs' r)
  case Nil
  then show ?case by simp
next
  case (Cons f fs)
  have refl: "list_all2 (\<lambda>f f'. f' = f \<or> f' = defaultModule f) fs fs"
    by (simp add: list_all2_same)
  from Cons.prems Cons.IH refl show ?case
    by (auto simp: forEachFunction_step simp del: forEachFunction.simps
        split: prod.splits sum.splits if_splits)
qed

text \<open>The two ways of a run in per-function mode.\<close>

lemma installAll_individually:
  assumes "this_individually this"
    and "installAllRequirements sys this s = (r, s', fs')"
  shows "(\<exists>e s1. on_world (ensureDirSync sys (path_join sys (this_servicePath this) ''.serverless'')) s
                   = (Inl e, s1) \<and> r = Inl e \<and> s' = s1 \<and> fs' = this_functions this)
       \<or> (\<exists>u s1 r1. on_world (ensureDirSync sys (path_join sys (this_servicePath this) ''.serverless'')) s
                   = (Inr u, s1)
              \<and> forEachFunction sys (this_servicePath this) (this_options this)
                   (this_functions this) [] s1 = (r1, s', fs')
              \<and> (r = Inr ()) = (\<exists>d. r1 = Inr d)
              \<and> (\<forall>e. r1 = Inl e \<longrightarrow> r = Inl e))"
  using assms
  by (auto simp: installAllRequirements_def Let_def split: prod.splits sum.splits)

text \<open>The definitions a run on the small system unfolds.\<close>

lemmas run_defs = installAllRequirements_def installRequirements_def vendorAndHook_def
  copyVendors_def runPostInstallScript_def executeCommand_def commandLine_def
  generateRequirementsFile_def filteredText_def filteredRequirements_def keepRequirement_def
  trim_def is_space_def is_delim_def cons_first_def LF_def CR_def outcome_def logOutput_def
  on_world_def log_def started_def truthy_def template_def defaultModule_def noDeploySet_def
  pipCmd_def dockerPathForWin_def exit_0_def posix_join_def posix_normalize_def
  demo_plugin_def demo_functions_def demo_state_def demo_files_def demo_manifest_def
  demo_options_def demo_sys_def Let_def



text \<open>The log of that run, as \<open>serverless.cli.log\<close> prints it.\<close>

lemma demo_run_log:
  "map render (cli_log (fst (snd (installAllRequirements demo_sys demo_plugin demo_state))))
     = [''Installing requirements of requirements.txt in .serverless...'',
        ''running python3 -m pip --isolated install -t .serverless/requirements -r .serverless/requirements.txt'',
        ''Installing requirements of svc2/requirements.txt in .serverless/svc2...'',
        ''running python3 -m pip --isolated install -t .serverless/svc2/requirements -r .serverless/svc2/requirements.txt'',
        ''Copying vendor libraries from vendored to .serverless/svc2/requirements...'',
        ''running ./strip.sh .serverless/svc2/requirements'']"
  by (simp add: run_defs)

text \<open>
  C9, as the code has it.  A run never writes to the vendor folder or the hook
  settings of a function, nor to a module that is set; it sets the module of a
  function to \<open>.\<close> when that is unset or empty and the loop reaches the function.
  Outside per-function mode no function is written to; a per-function run that
  returns has reached them all.
\<close>

theorem functions_only_defaulted:
  assumes "installAllRequirements sys this s = (r, s', fs')"
  shows "list_all2 (\<lambda>f f'. f' = f \<or> (\<not> truthy (f_module f) \<and> f' = f\<lparr>f_module := Some ''.''\<rparr>))
           (this_functions this) fs'
       \<and> (\<not> this_individually this \<longrightarrow> fs' = this_functions this)
       \<and> (this_individually this \<and> r = Inr () \<longrightarrow> fs' = map defaultModule (this_functions this))"
proof -
  have same: "list_all2 (\<lambda>f f'. f' = f \<or> (\<not> truthy (f_module f) \<and> f' = f\<lparr>f_module := Some ''.''\<rparr>))
                (this_functions this) (this_functions this)"
    by (simp add: list_all2_same)
  have R: "(\<lambda>f f'. f' = f \<or> f' = defaultModule f)
             = (\<lambda>f f'. f' = f \<or> (\<not> truthy (f_module f) \<and> f' = f\<lparr>f_module := Some ''.''\<rparr>))"
    by (intro ext) (auto simp: defaultModule_def)
  show ?thesis
  proof (cases "this_individually this")
    case False
    with assms have "fs' = this_functions this"
      by (auto simp: installAllRequirements_def Let_def split: prod.splits sum.splits)
    with False same show ?thesis by simp
  next
    case True
    from installAll_individually [OF True assms] show ?thesis
    proof (elim disjE exE conjE)
      fix e s1
      assume "fs' = this_functions this" "r = Inl e"
      with same show ?thesis by simp
    next
      fix u s1 r1
      assume run: "forEachFunction sys (this_servicePath this) (this_options this)
                     (this_functions this) [] s1 = (r1, s', fs')"
        and r: "(r = Inr ()) = (\<exists>d. r1 = Inr d)"
      from forEachFunction_functions [OF run] R
      have a: "list_all2 (\<lambda>f f'. f' = f \<or> (\<not> truthy (f_module f) \<and> f' = f\<lparr>f_module := Some ''.''\<rparr>))
                 (this_functions this) fs'"
        by simp
      have "r = Inr () \<longrightarrow> fs' = map defaultModule (this_functions this)"
      proof
        assume "r = Inr ()"
        with r obtain d where "r1 = Inr d" by blast
        with run forEachFunction_returns [of sys "this_servicePath this" "this_options this"
            "this_functions this" "[]" s1 d s' fs']
        show "fs' = map defaultModule (this_functions this)" by simp
      qed
      with a True show ?thesis by simp
    qed
  qed
qed

theorem functions_only_defaulted_witness:
  "snd (snd (installAllRequirements demo_sys demo_plugin demo_state))
     = [\<lparr>f_module = Some ''.'', f_vendor = None,
         f_pipPostInstallScript = None, f_pipPostInstallArgs = None\<rparr>,
        \<lparr>f_module = Some ''svc2'', f_vendor = Some ''vendored'',
         f_pipPostInstallScript = Some ''./strip.sh'', f_pipPostInstallArgs = None\<rparr>,
        \<lparr>f_module = Some ''.'', f_vendor = None,
         f_pipPostInstallScript = None, f_pipPostInstallArgs = None\<rparr>]"
proof -
  let ?run = "installAllRequirements demo_sys demo_plugin demo_state"
  have ok: "fst ?run = Inr ()" by (simp add: run_defs)
  then have run: "?run = (Inr (), fst (snd ?run), snd (snd ?run))"
    by (metis prod.collapse)
  from functions_only_defaulted [OF run]
  have "snd (snd ?run) = map defaultModule (this_functions demo_plugin)"
    by (simp add: demo_plugin_def)
  then show ?thesis
    by (simp add: demo_plugin_def demo_functions_def defaultModule_def truthy_def)
qed

text \<open>
  C9, as the claim states it, fails: the first function of the run above has
  no module before the run, and the module \<open>.\<close> after it.
\<close>

theorem functions_are_written:
  "this_functions demo_plugin ! 0
     = \<lparr>f_module = None, f_vendor = None,
        f_pipPostInstallScript = None, f_pipPostInstallArgs = None\<rparr>
   \<and> snd (snd (installAllRequirements demo_sys demo_plugin demo_state)) ! 0
     = \<lparr>f_module = Some ''.'', f_vendor = None,
        f_pipPostInstallScript = None, f_pipPostInstallArgs = None\<rparr>
   \<and> snd (snd (installAllRequirements demo_sys demo_plugin demo_state))
       \<noteq> this_functions demo_plugin"
  by (simp add: run_defs)

end
